theory Spec2Isabelle
  imports Main
begin

section \<open>JavaScript values, thrown values and HTTP outcomes\<close>

text \<open>
  The untyped values the code probes by shape (a response body, a thrown value).
  \<open>JNum\<close> carries integer-valued numbers only; \<open>JObj\<close> lists the own properties of an
  object in insertion order, each key once.
\<close>

datatype jsval =
    JUndefined
  | JNull
  | JBool bool
  | JNum int
  | JStr string
  | JArr "jsval list"
  | JObj "(string \<times> jsval) list"

text \<open>JavaScript truthiness, as \<open>if (x)\<close>, \<open>!x\<close>, \<open>x || y\<close> and \<open>x && y\<close> test it.\<close>

fun truthy :: "jsval \<Rightarrow> bool" where
  "truthy JUndefined = False"
| "truthy JNull = False"
| "truthy (JBool b) = b"
| "truthy (JNum n) = (n \<noteq> 0)"
| "truthy (JStr s) = (s \<noteq> [])"
| "truthy (JArr xs) = True"
| "truthy (JObj kvs) = True"

text \<open>
  Property access \<open>data["k"]\<close> on a value other than \<open>null\<close> and \<open>undefined\<close> (where
  JavaScript throws; the callers guard against both). Only objects carry own properties.
\<close>

fun get_prop :: "jsval \<Rightarrow> string \<Rightarrow> jsval" where
  "get_prop (JObj kvs) k = (case map_of kvs k of None \<Rightarrow> JUndefined | Some v \<Rightarrow> v)"
| "get_prop v k = JUndefined"

text \<open>A value of type \<open>string | null\<close> (or \<open>string | undefined\<close>): \<open>None\<close> is the missing one.\<close>

definition truthy_str :: "string option \<Rightarrow> bool" where
  "truthy_str x = (case x of None \<Rightarrow> False | Some s \<Rightarrow> s \<noteq> [])"

text \<open>\<open>a || b\<close> on two values of type \<open>string | null\<close>.\<close>

definition or_str :: "string option \<Rightarrow> string option \<Rightarrow> string option" where
  "or_str a b = (if truthy_str a then a else b)"

text \<open>\<open>a || "literal"\<close>: the default replaces a missing and an empty string alike.\<close>

definition or_default :: "string option \<Rightarrow> string \<Rightarrow> string" where
  "or_default a d = (case a of None \<Rightarrow> d | Some s \<Rightarrow> if s = [] then d else s)"

text \<open>
  The body and status of an HTTP response, and what a \<open>catch\<close> clause can receive:
  an error of the HTTP client (with the response when the server answered, without it when
  the request never got an answer), an \<open>Error\<close> instance, or any other thrown value.
\<close>

record response =
  status :: nat
  data :: jsval

datatype thrown =
    AxiosError "response option" string
  | JsError string
  | ThrownValue jsval

text \<open>The outcome of awaiting a request: the body \<open>res.data\<close>, or the rejection.\<close>

datatype 'a http = Resolved 'a | Rejected thrown

section \<open>Session store\<close>

record User =
  underscore_id :: string
  plain_id :: string
  fullName :: string
  email :: string
  userName :: string
  role :: string
  createdAt :: "string option"
  updatedAt :: "string option"

text \<open>
  The user object of the login response, declared in the user client. The provider reads
  the fields below and guards every one of them against being missing, so each is
  optional here.
\<close>

record ApiUser =
  api_id :: "string option"
  api_fullName :: "string option"
  api_email :: "string option"
  api_userName :: "string option"
  api_role :: "string option"
  api_createdAt :: "string option"
  api_updatedAt :: "string option"

record LoginPayload =
  login_field :: string
  password_field :: string

record AuthResponse =
  resp_token :: "string option"
  resp_user :: "ApiUser option"

type_synonym storage = "string \<Rightarrow> string option"

definition TOKEN_KEY :: string where
  "TOKEN_KEY = ''epaper_auth_token''"

definition USER_KEY :: string where
  "USER_KEY = ''epaper_auth_user''"

text \<open>
  Everything the session code reads and writes: the two browser storages, the token held
  by the HTTP client, and the three state cells of the provider.
\<close>

record app =
  localStorage :: storage
  sessionStorage :: storage
  httpToken :: "string option"
  user :: "User option"
  token :: "string option"
  loading :: bool

text \<open>
  Modelled from the spec: \<open>setAuthToken\<close> of the HTTP client wrapper (api.ts), which is not
  among the sources. The spec says the session store "propagates the token to the HTTP
  Client Wrapper", which "attaches the bearer token to every call", and that after the
  propagated token is cleared "subsequent requests carry no credential".
\<close>

definition setAuthToken :: "string option \<Rightarrow> app \<Rightarrow> app" where
  "setAuthToken t s = s\<lparr>httpToken := t\<rparr>"

text \<open>Modelled from the spec: the credential a request built in state \<open>s\<close> carries.\<close>

definition request_credential :: "app \<Rightarrow> string option" where
  "request_credential s =
     (case httpToken s of None \<Rightarrow> None | Some t \<Rightarrow> Some (''Bearer '' @ t))"

subsection \<open>The auth resource client\<close>

definition setToken :: "string option \<Rightarrow> app \<Rightarrow> app" where
  "setToken t s =
     (if truthy_str t
      then setAuthToken t (s\<lparr>localStorage := (localStorage s)(TOKEN_KEY := t)\<rparr>)
      else setAuthToken None (s\<lparr>localStorage := (localStorage s)(TOKEN_KEY := None)\<rparr>))"

definition getToken :: "app \<Rightarrow> string option" where
  "getToken s = localStorage s TOKEN_KEY"

definition clearToken :: "app \<Rightarrow> app" where
  "clearToken s = setToken None s"

text \<open>Decimal digits of a natural number, for \<open>String(n)\<close>.\<close>

fun digits :: "nat \<Rightarrow> string" where
  "digits n =
     (if n < 10 then [char_of (48 + n)]
      else digits (n div 10) @ [char_of (48 + n mod 10)])"

declare digits.simps [simp del]

text \<open>Joins strings with commas, as \<open>Array.prototype.join\<close> does by default.\<close>

fun join_comma :: "string list \<Rightarrow> string" where
  "join_comma [] = []"
| "join_comma [x] = x"
| "join_comma (x # y # ys) = x @ '','' @ join_comma (y # ys)"

text \<open>\<open>String(v)\<close>, the conversion \<open>new Error(v)\<close> applies to its argument.\<close>

fun js_String :: "jsval \<Rightarrow> string" where
  "js_String JUndefined = ''undefined''"
| "js_String JNull = ''null''"
| "js_String (JBool b) = (if b then ''true'' else ''false'')"
| "js_String (JNum n) = (if n < 0 then ''-'' @ digits (nat (- n)) else digits (nat n))"
| "js_String (JStr s) = s"
| "js_String (JArr xs) =
     join_comma (map (\<lambda>v. if v = JUndefined \<or> v = JNull then [] else js_String v) xs)"
| "js_String (JObj kvs) = ''[object Object]''"

text \<open>
  \<open>err.response?.data?.message || "Login failed"\<close>, converted by \<open>new Error\<close>. A string
  body has no own property \<open>message\<close>.
\<close>

definition login_failure_message :: "response option \<Rightarrow> string" where
  "login_failure_message r =
     (case r of
        None \<Rightarrow> ''Login failed''
      | Some resp \<Rightarrow>
          (if data resp = JUndefined \<or> data resp = JNull then ''Login failed''
           else let m = get_prop (data resp) ''message''
                in if truthy m then js_String m else ''Login failed''))"

text \<open>
  \<open>login\<close> of the auth client: posts the payload; stores the token of the answer when it
  has one; returns the user of the answer. The first component is the state afterwards,
  the second what the promise settles to.
\<close>

definition authApi_login ::
  "(LoginPayload \<Rightarrow> AuthResponse http) \<Rightarrow> LoginPayload \<Rightarrow> app \<Rightarrow> app \<times> (thrown + ApiUser option)" where
  "authApi_login server payload s =
     (case server payload of
        Resolved body \<Rightarrow>
          ((if truthy_str (resp_token body) then setToken (resp_token body) s else s),
           Inr (resp_user body))
      | Rejected err \<Rightarrow>
          (s, Inl (case err of
                     AxiosError r m \<Rightarrow> JsError (login_failure_message r)
                   | JsError m \<Rightarrow> err
                   | ThrownValue v \<Rightarrow> err)))"

subsection \<open>The provider\<close>

text \<open>
  The initial state. \<open>parse\<close> is \<open>JSON.parse\<close> read at the type \<open>User | null\<close>: \<open>Inl\<close> when it
  throws, \<open>Inr None\<close> for \<open>null\<close>. The \<open>try\<close> block is \<open>attempt\<close>, its \<open>catch\<close> clause the
  handler given to \<open>try_catch\<close>.
\<close>

definition try_catch :: "(thrown + 'a) \<Rightarrow> (thrown \<Rightarrow> thrown + 'a) \<Rightarrow> thrown + 'a" where
  "try_catch attempt handler = (case attempt of Inl e \<Rightarrow> handler e | Inr v \<Rightarrow> Inr v)"

definition initial_token :: "storage \<Rightarrow> storage \<Rightarrow> string option" where
  "initial_token ls ss = or_str (ls TOKEN_KEY) (ss TOKEN_KEY)"

definition initial_user ::
  "(string \<Rightarrow> thrown + User option) \<Rightarrow> storage \<Rightarrow> storage \<Rightarrow> thrown + User option" where
  "initial_user parse ls ss =
     (let raw = or_str (ls USER_KEY) (ss USER_KEY)
      in try_catch
           (case raw of
              None \<Rightarrow> Inr None
            | Some r \<Rightarrow> if r = [] then Inr None else parse r)
           (\<lambda>e. Inr None))"

definition AuthProvider ::
  "(string \<Rightarrow> thrown + User option) \<Rightarrow> storage \<Rightarrow> storage \<Rightarrow> thrown + app" where
  "AuthProvider parse ls ss =
     (case initial_user parse ls ss of
        Inl e \<Rightarrow> Inl e
      | Inr u \<Rightarrow>
          Inr (setAuthToken (initial_token ls ss)
                 \<lparr>localStorage = ls, sessionStorage = ss, httpToken = None,
                  user = u, token = initial_token ls ss, loading = False\<rparr>))"

text \<open>
  \<open>login\<close> of the provider. \<open>stringify\<close> is \<open>JSON.stringify\<close> on the normalised user. The
  second component is \<open>None\<close> when the promise resolves and the thrown value when it
  rejects; the \<open>finally\<close> clause resets \<open>loading\<close> on every path.
\<close>

definition normalizedUser :: "ApiUser \<Rightarrow> User" where
  "normalizedUser apiUser =
     \<lparr>underscore_id = or_default (api_id apiUser) '''',
      plain_id = or_default (api_id apiUser) '''',
      fullName = or_default (api_fullName apiUser) '''',
      email = or_default (api_email apiUser) '''',
      userName = or_default (api_userName apiUser) '''',
      role = or_default (api_role apiUser) ''Staff'',
      createdAt = api_createdAt apiUser,
      updatedAt = api_updatedAt apiUser\<rparr>"

definition setItem :: "string \<Rightarrow> string \<Rightarrow> storage \<Rightarrow> storage" where
  "setItem k v st = st(k \<mapsto> v)"

definition removeItem :: "string \<Rightarrow> storage \<Rightarrow> storage" where
  "removeItem k st = st(k := None)"

definition login ::
  "(LoginPayload \<Rightarrow> AuthResponse http) \<Rightarrow> (User \<Rightarrow> string) \<Rightarrow>
   string \<Rightarrow> string \<Rightarrow> bool \<Rightarrow> app \<Rightarrow> app \<times> thrown option" where
  "login server stringify loginValue password remember s0 =
     (let s1 = s0\<lparr>loading := True\<rparr>;
          (s2, r) = authApi_login server
                      \<lparr>login_field = loginValue, password_field = password\<rparr> s1
      in case r of
           Inl e \<Rightarrow> (s2\<lparr>loading := False\<rparr>, Some e)
         | Inr apiUser \<Rightarrow>
             (case getToken s2 of
                None \<Rightarrow> (s2\<lparr>loading := False\<rparr>, Some (JsError ''Token missing from response''))
              | Some tok \<Rightarrow>
                  if tok = [] then
                    (s2\<lparr>loading := False\<rparr>, Some (JsError ''Token missing from response''))
                  else
                    (case apiUser of
                       None \<Rightarrow>
                         (s2\<lparr>loading := False\<rparr>,
                          Some (JsError ''Cannot read properties of undefined''))
                     | Some au \<Rightarrow>
                         let nu = normalizedUser au;
                             s3 = s2\<lparr>user := Some nu, token := Some tok\<rparr>;
                             s4 = (if remember
                                   then s3\<lparr>localStorage :=
                                           setItem USER_KEY (stringify nu)
                                             (setItem TOKEN_KEY tok (localStorage s3))\<rparr>
                                   else s3\<lparr>sessionStorage :=
                                           setItem USER_KEY (stringify nu)
                                             (setItem TOKEN_KEY tok (sessionStorage s3))\<rparr>);
                             s5 = setAuthToken (Some tok) s4
                         in (s5\<lparr>loading := False\<rparr>, None))))"

definition logout :: "app \<Rightarrow> app" where
  "logout s0 =
     (let s1 = s0\<lparr>user := None, token := None\<rparr>;
          s2 = s1\<lparr>localStorage := removeItem USER_KEY (removeItem TOKEN_KEY (localStorage s1))\<rparr>;
          s3 = s2\<lparr>sessionStorage :=
                   removeItem USER_KEY (removeItem TOKEN_KEY (sessionStorage s2))\<rparr>
      in clearToken s3)"

section \<open>Route guard\<close>

record 'c ProtectedRouteProps =
  children :: 'c
  roles :: "string list option"
  redirectTo :: "string option"

text \<open>What the guard returns: the loading placeholder, a redirect, or its children.\<close>

datatype 'c element = LoadingDiv | Navigate string | Fragment 'c

definition ProtectedRoute :: "'c ProtectedRouteProps \<Rightarrow> app \<Rightarrow> 'c element" where
  "ProtectedRoute props s =
     (let target = (case redirectTo props of None \<Rightarrow> ''/'' | Some p \<Rightarrow> p)
      in if loading s then LoadingDiv
         else case user s of
                None \<Rightarrow> Navigate ''/signin''
              | Some u \<Rightarrow>
                  (case roles props of
                     None \<Rightarrow> Fragment (children props)
                   | Some rs \<Rightarrow>
                       if or_default (Some (role u)) [] \<notin> set rs then Navigate target
                       else Fragment (children props)))"

section \<open>Navigation model\<close>

record SubItem =
  sub_name :: string
  sub_path :: string
  pro :: "bool option"
  new :: "bool option"
  sub_allowedRoles :: "string list option"

record NavItem =
  name :: string
  icon :: string
  path :: "string option"
  subItems :: "SubItem list option"
  allowedRoles :: "string list option"

definition navItems :: "NavItem list" where
  "navItems =
     [\<lparr>name = ''Dashboard'', icon = ''GridIcon'', path = Some ''/admin-dashboard'',
       subItems = None, allowedRoles = Some [''SuperAdmin'', ''Admin'', ''Staff'']\<rparr>,
      \<lparr>name = ''Epaper'', icon = ''PageIcon'', path = None,
       subItems = Some
         [\<lparr>sub_name = ''Add New Epaper'', sub_path = ''/admin-dashboard/epapers/create'',
           pro = Some False, new = None, sub_allowedRoles = Some [''SuperAdmin'', ''Admin'']\<rparr>,
          \<lparr>sub_name = ''All Epaper'', sub_path = ''/admin-dashboard/epapers/'',
           pro = Some False, new = None,
           sub_allowedRoles = Some [''SuperAdmin'', ''Admin'', ''Staff'']\<rparr>],
       allowedRoles = Some [''SuperAdmin'', ''Admin'', ''Staff'']\<rparr>,
      \<lparr>name = ''User'', icon = ''PageIcon'', path = None,
       subItems = Some
         [\<lparr>sub_name = ''User Register'', sub_path = ''/admin-dashboard/users/create'',
           pro = Some False, new = None, sub_allowedRoles = Some [''SuperAdmin'', ''Admin'']\<rparr>,
          \<lparr>sub_name = ''All User'', sub_path = ''/admin-dashboard/users/'',
           pro = Some False, new = None, sub_allowedRoles = Some [''SuperAdmin'', ''Admin'']\<rparr>],
       allowedRoles = Some [''SuperAdmin'', ''Admin'']\<rparr>]"

definition hasAccess :: "User option \<Rightarrow> string list option \<Rightarrow> bool" where
  "hasAccess currentUser allowed =
     (case allowed of
        None \<Rightarrow> True
      | Some rs \<Rightarrow>
          if length rs = 0 then True
          else (case currentUser of
                  None \<Rightarrow> False
                | Some u \<Rightarrow> if role u = [] then False else role u \<in> set rs))"

text \<open>
  What \<open>renderMenuItems\<close> puts on the page for one entry that passed the check: a button
  with the links of its submenu (absent while the sidebar shows icons only), a direct link,
  or an empty list item.
\<close>

datatype rendered =
    MenuButton string "(string \<times> string) list option"
  | MenuLink string string
  | EmptyItem string

definition renderSubItems :: "User option \<Rightarrow> SubItem list \<Rightarrow> (string \<times> string) list" where
  "renderSubItems currentUser subs =
     List.map_filter
       (\<lambda>subItem. if \<not> hasAccess currentUser (sub_allowedRoles subItem) then None
                  else Some (sub_name subItem, sub_path subItem))
       subs"

definition renderMenuItems :: "User option \<Rightarrow> bool \<Rightarrow> NavItem list \<Rightarrow> rendered list" where
  "renderMenuItems currentUser showText items =
     List.map_filter
       (\<lambda>nav.
          if \<not> hasAccess currentUser (allowedRoles nav) then None
          else Some
            (case subItems nav of
               Some subs \<Rightarrow>
                 MenuButton (name nav)
                   (if showText then Some (renderSubItems currentUser subs) else None)
             | None \<Rightarrow>
                 (case path nav of
                    None \<Rightarrow> EmptyItem (name nav)
                  | Some p \<Rightarrow> if p = [] then EmptyItem (name nav) else MenuLink (name nav) p)))
       items"

text \<open>The names of the top-level entries on the page, and the (parent, sub-item) pairs.\<close>

fun shown_items :: "rendered list \<Rightarrow> string list" where
  "shown_items [] = []"
| "shown_items (MenuButton n subs # rs) = n # shown_items rs"
| "shown_items (MenuLink n p # rs) = n # shown_items rs"
| "shown_items (EmptyItem n # rs) = n # shown_items rs"

fun shown_subitems :: "rendered list \<Rightarrow> (string \<times> string) list" where
  "shown_subitems [] = []"
| "shown_subitems (MenuButton n (Some subs) # rs) = map (\<lambda>(sn, sp). (n, sn)) subs @ shown_subitems rs"
| "shown_subitems (MenuButton n None # rs) = shown_subitems rs"
| "shown_subitems (MenuLink n p # rs) = shown_subitems rs"
| "shown_subitems (EmptyItem n # rs) = shown_subitems rs"

text \<open>
  The visibility rule in the words of the specification: an entry is shown iff
  \<open>allowedRoles\<close> is absent or the current role is a member of it.
\<close>

definition visible_by_rule :: "string \<Rightarrow> string list option \<Rightarrow> bool" where
  "visible_by_rule r allowed = (case allowed of None \<Rightarrow> True | Some rs \<Rightarrow> r \<in> set rs)"

section \<open>The epaper resource client\<close>

text \<open>\<open>typeof v === "object"\<close> and \<open>typeof v === "string"\<close>.\<close>

fun is_object :: "jsval \<Rightarrow> bool" where
  "is_object JNull = True"
| "is_object (JArr xs) = True"
| "is_object (JObj kvs) = True"
| "is_object v = False"

fun is_string :: "jsval \<Rightarrow> bool" where
  "is_string (JStr s) = True"
| "is_string v = False"

text \<open>\<open>err.response?.data\<close>.\<close>

definition response_body :: "response option \<Rightarrow> jsval" where
  "response_body r = (case r of None \<Rightarrow> JUndefined | Some resp \<Rightarrow> data resp)"

definition extractErrorMessage :: "thrown \<Rightarrow> string" where
  "extractErrorMessage err =
     (case err of
        AxiosError r m \<Rightarrow>
          (let body = response_body r;
               transport = (if m = [] then ''Request failed'' else m)
           in case body of
                JStr s \<Rightarrow> s
              | _ \<Rightarrow>
                  if truthy body \<and> is_object body then
                    (case get_prop body ''message'' of
                       JStr s \<Rightarrow> s
                     | _ \<Rightarrow> (case get_prop body ''error'' of
                               JStr s \<Rightarrow> s
                             | _ \<Rightarrow> transport))
                  else transport)
      | JsError m \<Rightarrow> m
      | ThrownValue v \<Rightarrow> (case v of JStr s \<Rightarrow> s | _ \<Rightarrow> ''Unknown error occurred''))"

text \<open>
  Every operation of the epaper client (\<open>createEpaper\<close>, \<open>getAllEpapers\<close>, \<open>getEpaperById\<close>,
  \<open>updateEpaper\<close>, \<open>reorderEpaperImages\<close>, \<open>deleteEpaper\<close>, \<open>deleteEpaperImage\<close>,
  \<open>getEpapersByDateRange\<close>, \<open>getEpaperByDate\<close>) awaits one request inside
  \<open>try { ...; return res.data } catch (err) { throw new Error(extractErrorMessage(err)) }\<close>.
\<close>

definition epaper_request :: "'a http \<Rightarrow> thrown + 'a" where
  "epaper_request outcome =
     (case outcome of
        Resolved d \<Rightarrow> Inr d
      | Rejected err \<Rightarrow> Inl (JsError (extractErrorMessage err)))"

text \<open>
  The message in the priority order the specification gives: the body's string \<open>message\<close>,
  else the body's string \<open>error\<close>, else the transport-level text, else a generic string.
\<close>

definition message_by_stated_priority :: "response option \<Rightarrow> string \<Rightarrow> string" where
  "message_by_stated_priority r m =
     (case get_prop (response_body r) ''message'' of
        JStr s \<Rightarrow> s
      | _ \<Rightarrow> (case get_prop (response_body r) ''error'' of
                JStr s \<Rightarrow> s
              | _ \<Rightarrow> if m = [] then ''Request failed'' else m))"

section \<open>Editions\<close>

text \<open>
  An image of an edition. A field is \<open>None\<close> when the object lacks the property; the
  declared type makes only \<open>_id\<close> and \<open>uploadedAt\<close> optional, but an object built by
  spreading \<open>undefined\<close> has none of them.
\<close>

record EpaperImage =
  img_id :: "string option"
  pageNumber :: int
  imageUrl :: "string option"
  originalName :: "string option"
  mimeType :: "string option"
  img_size :: "nat option"
  uploadedAt :: "string option"

record EpaperPDF =
  fileUrl :: string
  pdf_originalName :: string
  pdf_mimeType :: string
  pdf_size :: nat
  pdf_uploadedAt :: "string option"

datatype fileType = Images | Pdf

datatype edition_status = Draft | Published | Archived

record Epaper =
  ep_id :: "string option"
  ep_name :: string
  ep_date :: string
  images :: "EpaperImage list"
  pdf :: "EpaperPDF option"
  ep_fileType :: fileType
  totalPages :: nat
  ep_status :: edition_status
  ep_createdAt :: "string option"
  ep_updatedAt :: "string option"

section \<open>Public landing page\<close>

text \<open>
  A \<open>Date\<close> object, as far as the page observes it: invalid, or valid with the calendar
  day that \<open>format(d, "yyyy-MM-dd")\<close> prints. \<open>format\<close> throws a \<open>RangeError\<close> on an invalid
  date. \<open>new Date(s)\<close> on a string is a parameter of the model (\<open>newDate\<close>).
\<close>

datatype jsdate = InvalidDate | ValidDate string

definition format_ymd :: "jsdate \<Rightarrow> thrown + string" where
  "format_ymd d =
     (case d of
        InvalidDate \<Rightarrow> Inl (JsError ''Invalid time value'')
      | ValidDate day \<Rightarrow> Inr day)"

datatype toast_variant = InfoToast | ErrorToast | SuccessToast

record toast =
  variant :: toast_variant
  title :: string
  message :: string

text \<open>The requests the page sends: by date, and page 1 with limit 1 of the published editions.\<close>

datatype query = ByDateQuery string | LatestPublishedQuery

text \<open>
  The server's answers. The answer to the second query is the \<open>epapers\<close> array of the body,
  \<open>None\<close> when the body or the array is missing.
\<close>

record backend =
  by_date :: "string \<Rightarrow> Epaper option http"
  latest_published :: "Epaper list option http"

record landing =
  epaper :: "Epaper option"
  currentPage :: nat
  selectedDate :: jsdate
  lp_loading :: bool
  error :: "string option"
  toasts :: "toast list"
  queries :: "query list"

definition showToast :: "toast \<Rightarrow> landing \<Rightarrow> landing" where
  "showToast t s = s\<lparr>toasts := toasts s @ [t]\<rparr>"

definition send :: "query \<Rightarrow> landing \<Rightarrow> landing" where
  "send q s = s\<lparr>queries := queries s @ [q]\<rparr>"

definition getEpaperByDate :: "backend \<Rightarrow> string \<Rightarrow> thrown + Epaper option" where
  "getEpaperByDate be date = epaper_request (by_date be date)"

text \<open>\<open>resp?.data?.epapers?.[0]\<close>.\<close>

definition first_epaper :: "Epaper list option \<Rightarrow> Epaper option" where
  "first_epaper eps =
     (case eps of None \<Rightarrow> None | Some [] \<Rightarrow> None | Some (e # rest) \<Rightarrow> Some e)"

definition latest_notice :: toast where
  "latest_notice =
     \<lparr>variant = InfoToast, title = ''Showing latest edition'',
      message = ''No edition found for the selected date '' @ [CHR 0xE2, CHR 0x80, CHR 0x94]
                @ '' displaying the latest published ePaper.''\<rparr>"

definition no_epaper_notice :: toast where
  "no_epaper_notice =
     \<lparr>variant = ErrorToast, title = ''No ePaper'',
      message = ''No published ePaper is currently available.''\<rparr>"

definition fetch_error_notice :: toast where
  "fetch_error_notice =
     \<lparr>variant = ErrorToast, title = ''Error'',
      message = ''Unable to fetch ePapers at this time.''\<rparr>"

text \<open>The \<open>catch (err2)\<close> clause of the second attempt.\<close>

definition catch_err2 :: "landing \<Rightarrow> landing" where
  "catch_err2 s = showToast fetch_error_notice (s\<lparr>error := Some ''Failed to fetch latest ePaper''\<rparr>)"

text \<open>Attempt 2: the latest published edition.\<close>

definition attempt2 :: "backend \<Rightarrow> (string \<Rightarrow> jsdate) \<Rightarrow> string \<Rightarrow> landing \<Rightarrow> landing" where
  "attempt2 be newDate formattedDate s0 =
     (let s1 = send LatestPublishedQuery s0
      in case latest_published be of
           Rejected err2 \<Rightarrow> catch_err2 s1
         | Resolved eps \<Rightarrow>
             (case first_epaper eps of
                Some latest \<Rightarrow>
                  (let s2 = s1\<lparr>epaper := Some latest, currentPage := 0\<rparr>
                   in case format_ymd (newDate (ep_date latest)) of
                        Inl err2 \<Rightarrow> catch_err2 s2
                      | Inr latestDateStr \<Rightarrow>
                          showToast latest_notice
                            (if latestDateStr \<noteq> formattedDate
                             then s2\<lparr>selectedDate := newDate (ep_date latest)\<rparr>
                             else s2))
              | None \<Rightarrow>
                  showToast no_epaper_notice
                    (s1\<lparr>epaper := None, error := Some ''No published ePaper available''\<rparr>)))"

text \<open>
  \<open>loadEpaper\<close>. The second component is the value the call throws, if any: \<open>format\<close> on the
  requested date runs before the \<open>try\<close> block, so its \<open>RangeError\<close> escapes and the
  \<open>finally\<close> clause does not run. Everything after it is inside \<open>try\<close> blocks.
\<close>

definition loadEpaper ::
  "backend \<Rightarrow> (string \<Rightarrow> jsdate) \<Rightarrow> jsdate \<Rightarrow> landing \<Rightarrow> landing \<times> thrown option" where
  "loadEpaper be newDate date s0 =
     (let s1 = s0\<lparr>lp_loading := True, error := None\<rparr>
      in case format_ymd date of
           Inl e \<Rightarrow> (s1, Some e)
         | Inr formattedDate \<Rightarrow>
             (let s2 = send (ByDateQuery formattedDate) s1;
                  s3 = (case getEpaperByDate be formattedDate of
                          Inl err \<Rightarrow> attempt2 be newDate formattedDate s2
                        | Inr None \<Rightarrow> attempt2 be newDate formattedDate s2
                        | Inr (Some d) \<Rightarrow>
                            (let s' = s2\<lparr>epaper := Some d, currentPage := 0\<rparr>
                             in case format_ymd (newDate (ep_date d)) of
                                  Inl err \<Rightarrow> attempt2 be newDate formattedDate s'
                                | Inr apiDateStr \<Rightarrow>
                                    if apiDateStr \<noteq> formattedDate
                                    then s'\<lparr>selectedDate := newDate (ep_date d)\<rparr>
                                    else s'))
              in (s3\<lparr>lp_loading := False\<rparr>, None)))"

text \<open>
  The by-date answers that mean "not found" in the interface contract: status 404, or an
  answer with an empty body.
\<close>

definition not_found :: "Epaper option http \<Rightarrow> bool" where
  "not_found r =
     (case r of
        Resolved None \<Rightarrow> True
      | Resolved (Some e) \<Rightarrow> False
      | Rejected (AxiosError (Some resp) m) \<Rightarrow> status resp = 404
      | Rejected other \<Rightarrow> False)"

text \<open>A transport-level failure: the request was rejected without any response.\<close>

definition transport_failure :: "'a http \<Rightarrow> bool" where
  "transport_failure r =
     (case r of
        Rejected (AxiosError None m) \<Rightarrow> True
      | Rejected other \<Rightarrow> False
      | Resolved d \<Rightarrow> False)"

section \<open>Edition form: reordering the existing images\<close>

text \<open>\<open>Array.prototype.findIndex\<close>: the first index whose element passes, else \<open>-1\<close>.\<close>

fun findIndex :: "('a \<Rightarrow> bool) \<Rightarrow> 'a list \<Rightarrow> int" where
  "findIndex P [] = - 1"
| "findIndex P (x # xs) =
     (if P x then 0 else (let r = findIndex P xs in if r < 0 then - 1 else r + 1))"

text \<open>
  The start position \<open>Array.prototype.splice\<close> works at, on an array of length \<open>len\<close>:
  a negative start counts from the end, and the result is clamped to \<open>0..len\<close>.
\<close>

definition splice_start :: "int \<Rightarrow> nat \<Rightarrow> nat" where
  "splice_start start len =
     (if start < 0 then nat (max (int len + start) 0) else min (nat start) len)"

text \<open>
  \<open>arrayMove\<close> of the drag-and-drop library (a dependency, not part of the sources):
  \<open>const newArray = array.slice();
   newArray.splice(to < 0 ? newArray.length + to : to, 0, newArray.splice(from, 1)[0]);
   return newArray;\<close>
  The target index is computed before the element is removed. When nothing is removed
  the inserted element is \<open>undefined\<close>, here \<open>None\<close>.
\<close>

definition arrayMove :: "'a list \<Rightarrow> int \<Rightarrow> int \<Rightarrow> 'a option list" where
  "arrayMove array from to =
     (let newArray = map Some array;
          target = (if to < 0 then int (length newArray) + to else to);
          k = splice_start from (length newArray);
          removed = (if k < length newArray then newArray ! k else None);
          rest = take k newArray @ drop (Suc k) newArray;
          j = splice_start target (length rest)
      in take j rest @ [removed] @ drop j rest)"

text \<open>\<open>{...img, pageNumber: n}\<close>.\<close>

definition with_pageNumber :: "EpaperImage option \<Rightarrow> int \<Rightarrow> EpaperImage" where
  "with_pageNumber img n =
     (case img of
        None \<Rightarrow>
          \<lparr>img_id = None, pageNumber = n, imageUrl = None, originalName = None,
           mimeType = None, img_size = None, uploadedAt = None\<rparr>
      | Some i \<Rightarrow> i\<lparr>pageNumber := n\<rparr>)"

text \<open>\<open>reorderedImages.map((img, index) => ({...img, pageNumber: index + 1}))\<close>.\<close>

definition renumber :: "EpaperImage option list \<Rightarrow> EpaperImage list" where
  "renumber imgs =
     map (\<lambda>(img, index). with_pageNumber img (int index + 1)) (zip imgs [0..<length imgs])"

record EpaperFormData =
  form_name :: string
  form_date :: "jsdate option"
  form_status :: edition_status
  form_images :: "string list"
  existingImages :: "EpaperImage list"
  form_pdf :: "string option"
  existingPDF :: "EpaperPDF option"

record DragEndEvent =
  active_id :: string
  over_id :: "string option"

text \<open>\<open>updatedImages.map((img) => img._id!).filter(Boolean)\<close>.\<close>

definition imageOrder :: "EpaperImage list \<Rightarrow> string list" where
  "imageOrder imgs =
     List.map_filter
       (\<lambda>img. case img_id img of None \<Rightarrow> None | Some i \<Rightarrow> if i = [] then None else Some i)
       imgs"

definition reorderEpaperImages ::
  "(string \<Rightarrow> string list \<Rightarrow> unit http) \<Rightarrow> string \<Rightarrow> string list \<Rightarrow> thrown + unit" where
  "reorderEpaperImages server ident order = epaper_request (server ident order)"

text \<open>
  \<open>handleDragEnd\<close>: the form data afterwards, the toasts shown, and the reorder request
  sent (the edition id and the image order), if any. \<open>ident\<close> is the route parameter \<open>id\<close>.
\<close>

definition handleDragEnd ::
  "(string \<Rightarrow> string list \<Rightarrow> unit http) \<Rightarrow> string option \<Rightarrow> DragEndEvent \<Rightarrow> EpaperFormData \<Rightarrow>
   EpaperFormData \<times> toast list \<times> (string \<times> string list) option" where
  "handleDragEnd server ident event formData =
     (case over_id event of
        None \<Rightarrow> (formData, [], None)
      | Some over \<Rightarrow>
          if active_id event = over then (formData, [], None)
          else
            (let oldIndex = findIndex (\<lambda>img. img_id img = Some (active_id event))
                              (existingImages formData);
                 newIndex = findIndex (\<lambda>img. img_id img = Some over) (existingImages formData);
                 reorderedImages = arrayMove (existingImages formData) oldIndex newIndex;
                 updatedImages = renumber reorderedImages;
                 formData' = formData\<lparr>existingImages := updatedImages\<rparr>
             in case ident of
                  None \<Rightarrow> (formData', [], None)
                | Some i \<Rightarrow>
                    if i = [] then (formData', [], None)
                    else
                      (case reorderEpaperImages server i (imageOrder updatedImages) of
                         Inr ok \<Rightarrow>
                           (formData',
                            [\<lparr>variant = SuccessToast, title = ''Success'',
                              message = ''Images reordered successfully''\<rparr>],
                            Some (i, imageOrder updatedImages))
                       | Inl err \<Rightarrow>
                           (formData',
                            [\<lparr>variant = ErrorToast, title = ''Error'',
                              message = ''Failed to reorder images''\<rparr>],
                            Some (i, imageOrder updatedImages)))))"

text \<open>The list with the element at position \<open>i\<close> taken out and put back at position \<open>j\<close>.\<close>

definition moved :: "'a list \<Rightarrow> nat \<Rightarrow> nat \<Rightarrow> 'a list" where
  "moved xs i j =
     (let rest = take i xs @ drop (Suc i) xs in take j rest @ [xs ! i] @ drop j rest)"

section \<open>Example inputs\<close>

definition fresh_app :: app where
  "fresh_app =
     \<lparr>localStorage = Map.empty, sessionStorage = Map.empty, httpToken = None,
      user = None, token = None, loading = False\<rparr>"

definition alice :: ApiUser where
  "alice =
     \<lparr>api_id = Some ''u1'', api_fullName = Some ''Alice'', api_email = Some ''alice@example.org'',
      api_userName = Some ''alice'', api_role = Some ''Admin'', api_createdAt = None,
      api_updatedAt = None\<rparr>"

text \<open>A server that accepts every login and answers with the token \<open>t1\<close>.\<close>

definition accepting_server :: "LoginPayload \<Rightarrow> AuthResponse http" where
  "accepting_server payload = Resolved \<lparr>resp_token = Some ''t1'', resp_user = Some alice\<rparr>"

text \<open>A stand-in for \<open>JSON.stringify\<close>.\<close>

definition show_user :: "User \<Rightarrow> string" where
  "show_user u = ''user:'' @ userName u"

text \<open>A \<open>JSON.parse\<close> that rejects its input.\<close>

definition rejecting_parse :: "string \<Rightarrow> thrown + User option" where
  "rejecting_parse raw = Inl (JsError ''Unexpected token'')"

definition staff_member :: User where
  "staff_member =
     \<lparr>underscore_id = ''u2'', plain_id = ''u2'', fullName = ''Bob'', email = ''bob@example.org'',
      userName = ''bob'', role = ''Staff'', createdAt = None, updatedAt = None\<rparr>"

definition admin_only :: "unit ProtectedRouteProps" where
  "admin_only = \<lparr>children = (), roles = Some [''SuperAdmin'', ''Admin''], redirectTo = None\<rparr>"

definition staff_too :: "unit ProtectedRouteProps" where
  "staff_too =
     \<lparr>children = (), roles = Some [''SuperAdmin'', ''Admin'', ''Staff''], redirectTo = None\<rparr>"

definition morning_edition :: Epaper where
  "morning_edition =
     \<lparr>ep_id = Some ''e1'', ep_name = ''Morning'', ep_date = ''2024-04-30'', images = [],
      pdf = None, ep_fileType = Images, totalPages = 0, ep_status = Published,
      ep_createdAt = None, ep_updatedAt = None\<rparr>"

text \<open>
  Three servers: one that cannot be reached for the by-date query, one that answers it
  with status 404, and one that answers 404 and has no published edition either.
\<close>

definition unreachable_by_date :: backend where
  "unreachable_by_date =
     \<lparr>by_date = (\<lambda>d. Rejected (AxiosError None ''Network Error'')),
      latest_published = Resolved (Some [morning_edition])\<rparr>"

definition no_edition_that_day :: backend where
  "no_edition_that_day =
     \<lparr>by_date = (\<lambda>d. Rejected (AxiosError
                  (Some \<lparr>status = 404, data = JObj [(''message'', JStr ''ePaper not found'')]\<rparr>)
                  ''Request failed with status code 404'')),
      latest_published = Resolved (Some [morning_edition])\<rparr>"

definition no_edition_at_all :: backend where
  "no_edition_at_all =
     \<lparr>by_date = (\<lambda>d. Rejected (AxiosError
                  (Some \<lparr>status = 404, data = JObj [(''message'', JStr ''ePaper not found'')]\<rparr>)
                  ''Request failed with status code 404'')),
      latest_published = Resolved (Some [])\<rparr>"

definition fresh_landing :: landing where
  "fresh_landing =
     \<lparr>epaper = None, currentPage = 0, selectedDate = ValidDate ''2024-05-01'',
      lp_loading = True, error = None, toasts = [], queries = []\<rparr>"

definition page_image :: "string \<Rightarrow> int \<Rightarrow> EpaperImage" where
  "page_image ident n =
     \<lparr>img_id = Some ident, pageNumber = n, imageUrl = Some (''uploads/'' @ ident),
      originalName = Some ident, mimeType = Some ''image/png'', img_size = Some 1024,
      uploadedAt = None\<rparr>"

definition form_ABC :: EpaperFormData where
  "form_ABC =
     \<lparr>form_name = ''Morning'', form_date = Some (ValidDate ''2024-04-30''), form_status = Draft,
      form_images = [],
      existingImages = [page_image ''A'' 1, page_image ''B'' 2, page_image ''C'' 3],
      form_pdf = None, existingPDF = None\<rparr>"

definition accepting_reorder :: "string \<Rightarrow> string list \<Rightarrow> unit http" where
  "accepting_reorder ident order = Resolved ()"

section \<open>Session store: login, logout, start-up\<close>

text \<open>
  Claim C1 says that a successful login with \<open>remember = false\<close> persists token and user to
  \<open>sessionStorage\<close> and not to \<open>localStorage\<close>. The code run on the failing input: both
  storages empty, the server accepts the login with token \<open>t1\<close>, and \<open>remember\<close> is false.
  The login resolves; the user entry is in \<open>sessionStorage\<close> only, but the token is in
  \<open>sessionStorage\<close> and in \<open>localStorage\<close>: \<open>login\<close> of the auth client has stored it
  there through \<open>setToken\<close> before the provider chooses a storage.
\<close>

theorem login_without_remember_keeps_token_in_localStorage:
  "snd (login accepting_server show_user ''alice'' ''secret'' False fresh_app) = None
   \<and> sessionStorage (fst (login accepting_server show_user ''alice'' ''secret'' False fresh_app))
        TOKEN_KEY = Some ''t1''
   \<and> sessionStorage (fst (login accepting_server show_user ''alice'' ''secret'' False fresh_app))
        USER_KEY = Some ''user:alice''
   \<and> localStorage (fst (login accepting_server show_user ''alice'' ''secret'' False fresh_app))
        USER_KEY = None
   \<and> localStorage (fst (login accepting_server show_user ''alice'' ''secret'' False fresh_app))
        TOKEN_KEY = Some ''t1''"
  by (simp add: login_def authApi_login_def accepting_server_def fresh_app_def show_user_def
      alice_def setToken_def setAuthToken_def getToken_def truthy_str_def setItem_def
      normalizedUser_def or_default_def TOKEN_KEY_def USER_KEY_def Let_def)

text \<open>
  Whatever \<open>remember\<close> is, a login that resolves leaves a non-empty token under the token key
  of \<open>localStorage\<close>: the provider reads the token back from there.
\<close>

lemma login_resolved_token_in_localStorage:
  "login server stringify loginValue password remember s0 = (s, None) \<Longrightarrow>
   \<exists>t. t \<noteq> [] \<and> localStorage s TOKEN_KEY = Some t \<and> token s = Some t \<and> httpToken s = Some t"
  by (auto simp: login_def authApi_login_def setToken_def setAuthToken_def getToken_def
      truthy_str_def setItem_def TOKEN_KEY_def USER_KEY_def Let_def
      split: http.splits sum.splits option.splits if_splits prod.splits)

text \<open>
  With \<open>remember = true\<close> the claim holds: a login that resolves writes token and user to
  \<open>localStorage\<close> and leaves \<open>sessionStorage\<close> as it was.
\<close>

lemma login_remember_durable_only:
  "login server stringify loginValue password True s0 = (s, None) \<Longrightarrow>
   sessionStorage s = sessionStorage s0
   \<and> (\<exists>t u. localStorage s TOKEN_KEY = Some t \<and> localStorage s USER_KEY = Some (stringify u)
            \<and> token s = Some t \<and> user s = Some u)"
  by (auto simp: login_def authApi_login_def setToken_def setAuthToken_def getToken_def
      truthy_str_def setItem_def TOKEN_KEY_def USER_KEY_def Let_def
      split: http.splits sum.splits option.splits if_splits prod.splits)

text \<open>
  Claim C7: \<open>logout\<close> has no failing path (it is a total function on the state), and in the
  state it returns the token and user entries are absent from \<open>localStorage\<close> and from
  \<open>sessionStorage\<close>, whatever they held before; the token of the HTTP client is cleared, so
  a request built afterwards carries no credential; the provider's user and token are
  absent.
\<close>

theorem logout_clears_both_scopes:
  "localStorage (logout s) TOKEN_KEY = None \<and> localStorage (logout s) USER_KEY = None
   \<and> sessionStorage (logout s) TOKEN_KEY = None \<and> sessionStorage (logout s) USER_KEY = None
   \<and> httpToken (logout s) = None \<and> request_credential (logout s) = None
   \<and> user (logout s) = None \<and> token (logout s) = None"
  by (simp add: logout_def clearToken_def setToken_def setAuthToken_def removeItem_def
      request_credential_def truthy_str_def Let_def)

text \<open>
  Claim C9: for every content of the two storages and every behaviour of \<open>JSON.parse\<close>, the
  initial state is built without throwing; and when the persisted user entry that is read
  (the one of \<open>localStorage\<close> if non-empty, else the one of \<open>sessionStorage\<close>) is not valid
  JSON, so that \<open>JSON.parse\<close> throws on it, the user of the initial state is absent.
\<close>

theorem AuthProvider_malformed_user:
  "\<exists>s. AuthProvider parse ls ss = Inr s
       \<and> (or_str (ls USER_KEY) (ss USER_KEY) = Some raw \<and> parse raw = Inl e \<longrightarrow> user s = None)"
  by (auto simp: AuthProvider_def initial_user_def try_catch_def setAuthToken_def Let_def
      split: sum.splits option.splits)

text \<open>
  Witness for C9: \<open>localStorage\<close> holds a truncated user entry and a token, and
  \<open>JSON.parse\<close> rejects the entry.
\<close>

theorem AuthProvider_malformed_user_witness:
  "or_str ([USER_KEY \<mapsto> ''{oops'', TOKEN_KEY \<mapsto> ''t1''] USER_KEY) (Map.empty USER_KEY) = Some ''{oops''
   \<and> rejecting_parse ''{oops'' = Inl (JsError ''Unexpected token'')
   \<and> (\<exists>s. AuthProvider rejecting_parse [USER_KEY \<mapsto> ''{oops'', TOKEN_KEY \<mapsto> ''t1''] Map.empty = Inr s
          \<and> user s = None)"
  using AuthProvider_malformed_user
    [of rejecting_parse "[USER_KEY \<mapsto> ''{oops'', TOKEN_KEY \<mapsto> ''t1'']" Map.empty
        "''{oops''" "JsError ''Unexpected token''"]
  by (auto simp: or_str_def truthy_str_def rejecting_parse_def USER_KEY_def TOKEN_KEY_def)

section \<open>Route guard\<close>

text \<open>
  Claim C3: while the session is loading the guard renders the loading placeholder and no
  redirect; otherwise, without a user it redirects to \<open>/signin\<close>; otherwise, when \<open>roles\<close> is
  given and the user's role is not in it, it redirects to \<open>redirectTo\<close>, which is \<open>/\<close> when
  not given; otherwise it renders its children.
\<close>

theorem ProtectedRoute_decision:
  "(loading s \<longrightarrow> ProtectedRoute props s = LoadingDiv)
   \<and> (\<not> loading s \<and> user s = None \<longrightarrow> ProtectedRoute props s = Navigate ''/signin'')
   \<and> (\<not> loading s \<and> user s = Some u \<and> roles props = Some rs \<and> role u \<notin> set rs \<longrightarrow>
        ProtectedRoute props s
          = Navigate (case redirectTo props of None \<Rightarrow> ''/'' | Some p \<Rightarrow> p))
   \<and> (\<not> loading s \<and> user s = Some u
        \<and> (roles props = None \<or> (roles props = Some rs \<and> role u \<in> set rs)) \<longrightarrow>
        ProtectedRoute props s = Fragment (children props))"
  by (auto simp: ProtectedRoute_def or_default_def Let_def split: option.splits)

text \<open>
  Witness for C3, one state for each branch: loading; no user; a staff member at a guard
  for administrators (no \<open>redirectTo\<close>, so the target is \<open>/\<close>); a staff member at a guard
  that admits staff.
\<close>

theorem ProtectedRoute_decision_witness:
  "ProtectedRoute admin_only (fresh_app\<lparr>loading := True\<rparr>) = LoadingDiv
   \<and> ProtectedRoute admin_only fresh_app = Navigate ''/signin''
   \<and> ProtectedRoute admin_only (fresh_app\<lparr>user := Some staff_member\<rparr>) = Navigate ''/''
   \<and> ProtectedRoute staff_too (fresh_app\<lparr>user := Some staff_member\<rparr>) = Fragment ()"
  using ProtectedRoute_decision [of "fresh_app\<lparr>loading := True\<rparr>" admin_only staff_member "[]"]
    ProtectedRoute_decision [of fresh_app admin_only staff_member "[]"]
    ProtectedRoute_decision
      [of "fresh_app\<lparr>user := Some staff_member\<rparr>" admin_only staff_member
          "[''SuperAdmin'', ''Admin'']"]
    ProtectedRoute_decision
      [of "fresh_app\<lparr>user := Some staff_member\<rparr>" staff_too staff_member
          "[''SuperAdmin'', ''Admin'', ''Staff'']"]
  by (simp add: fresh_app_def admin_only_def staff_too_def staff_member_def)

section \<open>Navigation model\<close>

text \<open>
  Claim C2: for each of the three roles and each entry of the fixed navigation tree, at
  the top level and at the sub-item level, the access check on the entry agrees with the
  rule "\<open>allowedRoles\<close> is absent or the role is a member of it", and so does what is put on
  the page: a top-level entry is rendered iff the rule admits it, and a sub-item is
  rendered (in the expanded sidebar) iff the rule admits it.
\<close>

theorem navItems_visibility:
  "\<forall>R \<in> {''SuperAdmin'', ''Admin'', ''Staff''}. \<forall>E \<in> set navItems.
     hasAccess (Some (u\<lparr>role := R\<rparr>)) (allowedRoles E) = visible_by_rule R (allowedRoles E)
     \<and> (name E \<in> set (shown_items (renderMenuItems (Some (u\<lparr>role := R\<rparr>)) True navItems)))
         = visible_by_rule R (allowedRoles E)
     \<and> (\<forall>S \<in> set (case subItems E of None \<Rightarrow> [] | Some subs \<Rightarrow> subs).
          hasAccess (Some (u\<lparr>role := R\<rparr>)) (sub_allowedRoles S)
            = visible_by_rule R (sub_allowedRoles S)
          \<and> ((name E, sub_name S)
               \<in> set (shown_subitems (renderMenuItems (Some (u\<lparr>role := R\<rparr>)) True navItems)))
              = visible_by_rule R (sub_allowedRoles S))"
  by (simp add: navItems_def hasAccess_def visible_by_rule_def renderMenuItems_def
      renderSubItems_def List.map_filter_def)

text \<open>
  Witness for C2: the role \<open>Staff\<close> and the second entry of the tree, \<open>Epaper\<close>, with its
  first sub-item \<open>Add New Epaper\<close>: the entry is shown to a staff member, the sub-item is
  not.
\<close>

theorem navItems_visibility_witness:
  "''Staff'' \<in> {''SuperAdmin'', ''Admin'', ''Staff''}
   \<and> navItems ! 1 \<in> set navItems
   \<and> ''Epaper'' \<in> set (shown_items (renderMenuItems (Some staff_member) True navItems))
   \<and> (''Epaper'', ''Add New Epaper'')
        \<notin> set (shown_subitems (renderMenuItems (Some staff_member) True navItems))
   \<and> (''Epaper'', ''All Epaper'')
        \<in> set (shown_subitems (renderMenuItems (Some staff_member) True navItems))"
  using navItems_visibility [of staff_member, THEN bspec, of "''Staff''", THEN bspec, of "navItems ! 1"]
  by (simp add: navItems_def staff_member_def visible_by_rule_def)

text \<open>
  Claim C10: an entry whose \<open>allowedRoles\<close> is present but empty passes the access check
  for every user, also for no user at all, exactly as an entry without \<open>allowedRoles\<close> does;
  the membership rule alone would admit nobody to it.
\<close>

theorem hasAccess_empty_allowedRoles:
  "hasAccess currentUser (Some []) \<and> hasAccess None (Some [])
   \<and> hasAccess currentUser (Some []) = hasAccess currentUser None
   \<and> \<not> visible_by_rule r (Some [])"
  by (simp add: hasAccess_def visible_by_rule_def)

section \<open>Error normalisation of the epaper client\<close>

text \<open>
  Claim C6 gives the priority order: string \<open>message\<close> of the body, else string \<open>error\<close> of
  the body, else the transport-level text, else a generic string. Counterexample: the
  server answers 404 with the plain-text body \<open>Not Found\<close>. The body has neither field, so
  the stated order yields the transport-level text; the code returns the body itself.
\<close>

theorem extractErrorMessage_string_body_first:
  "extractErrorMessage
     (AxiosError (Some \<lparr>status = 404, data = JStr ''Not Found''\<rparr>)
        ''Request failed with status code 404'')
     = ''Not Found''
   \<and> message_by_stated_priority (Some \<lparr>status = 404, data = JStr ''Not Found''\<rparr>)
        ''Request failed with status code 404''
     = ''Request failed with status code 404''"
  by (simp add: extractErrorMessage_def message_by_stated_priority_def response_body_def)

text \<open>
  Claim C6 as amended: every failed operation of the epaper client delivers one \<open>Error\<close>
  whose message is \<open>extractErrorMessage\<close> of what was caught, and that message is: the
  response body itself when the body is a string; for any other body (or none) the stated
  priority order: string \<open>message\<close> field, else string \<open>error\<close> field, else the
  transport-level text, else \<open>Request failed\<close>; for a caught \<open>Error\<close> that is not an
  HTTP-client error its message; for a caught string the string; for anything else
  \<open>Unknown error occurred\<close>.
\<close>

theorem extractErrorMessage_priority:
  "epaper_request (Rejected err) = Inl (JsError (extractErrorMessage err))
   \<and> (response_body r = JStr s \<longrightarrow> extractErrorMessage (AxiosError r m) = s)
   \<and> (\<not> is_string (response_body r) \<longrightarrow>
        extractErrorMessage (AxiosError r m) = message_by_stated_priority r m)
   \<and> extractErrorMessage (JsError m) = m
   \<and> extractErrorMessage (ThrownValue (JStr s)) = s
   \<and> (\<not> is_string v \<longrightarrow> extractErrorMessage (ThrownValue v) = ''Unknown error occurred'')"
proof (intro conjI impI)
  show "epaper_request (Rejected err) = Inl (JsError (extractErrorMessage err))"
    by (simp add: epaper_request_def)
  show "extractErrorMessage (AxiosError r m) = s" if "response_body r = JStr s"
    using that by (simp add: extractErrorMessage_def)
  show "extractErrorMessage (AxiosError r m) = message_by_stated_priority r m"
    if "\<not> is_string (response_body r)"
    using that
    by (cases "response_body r")
      (auto simp: extractErrorMessage_def message_by_stated_priority_def Let_def
        split: jsval.splits option.splits)
  show "extractErrorMessage (JsError m) = m"
    by (simp add: extractErrorMessage_def)
  show "extractErrorMessage (ThrownValue (JStr s)) = s"
    by (simp add: extractErrorMessage_def)
  show "extractErrorMessage (ThrownValue v) = ''Unknown error occurred''" if "\<not> is_string v"
    using that by (cases v) (auto simp: extractErrorMessage_def)
qed

text \<open>
  Witness for C6: a body \<open>{message: "X", error: "Y"}\<close> gives \<open>X\<close>; a body \<open>{error: "Y"}\<close>
  gives \<open>Y\<close>; a network failure without response gives the transport-level text, and
  \<open>Request failed\<close> when that text is empty; a thrown number gives
  \<open>Unknown error occurred\<close>.
\<close>

theorem extractErrorMessage_priority_witness:
  "\<not> is_string (response_body
       (Some \<lparr>status = 400, data = JObj [(''message'', JStr ''X''), (''error'', JStr ''Y'')]\<rparr>))
   \<and> extractErrorMessage
     (AxiosError (Some \<lparr>status = 400, data = JObj [(''message'', JStr ''X''), (''error'', JStr ''Y'')]\<rparr>)
        ''Request failed with status code 400'') = ''X''
   \<and> extractErrorMessage
     (AxiosError (Some \<lparr>status = 500, data = JObj [(''error'', JStr ''Y'')]\<rparr>)
        ''Request failed with status code 500'') = ''Y''
   \<and> extractErrorMessage (AxiosError None ''Network Error'') = ''Network Error''
   \<and> extractErrorMessage (AxiosError None []) = ''Request failed''
   \<and> response_body (Some \<lparr>status = 502, data = JStr ''Bad Gateway''\<rparr>) = JStr ''Bad Gateway''
   \<and> extractErrorMessage (AxiosError (Some \<lparr>status = 502, data = JStr ''Bad Gateway''\<rparr>) [])
       = ''Bad Gateway''
   \<and> \<not> is_string (JNum 7)
   \<and> extractErrorMessage (ThrownValue (JNum 7)) = ''Unknown error occurred''"
proof -
  let ?both = "Some \<lparr>status = 400, data = JObj [(''message'', JStr ''X''), (''error'', JStr ''Y'')]\<rparr>"
  let ?only_error = "Some \<lparr>status = 500, data = JObj [(''error'', JStr ''Y'')]\<rparr>"
  let ?text = "Some \<lparr>status = 502, data = JStr ''Bad Gateway''\<rparr>"
  have h1: "\<not> is_string (response_body ?both)" by (simp add: response_body_def)
  have h2: "\<not> is_string (response_body ?only_error)" by (simp add: response_body_def)
  have h3: "\<not> is_string (response_body None)" by (simp add: response_body_def)
  have h4: "response_body ?text = JStr ''Bad Gateway''" by (simp add: response_body_def)
  have h5: "\<not> is_string (JNum 7)" by simp
  have "extractErrorMessage (AxiosError ?both ''Request failed with status code 400'')
          = message_by_stated_priority ?both ''Request failed with status code 400''"
    using extractErrorMessage_priority
      [of "JsError []" ?both "[]" "''Request failed with status code 400''" "JNum 7"] h1
    by blast
  then have r1: "extractErrorMessage (AxiosError ?both ''Request failed with status code 400'') = ''X''"
    by (simp add: message_by_stated_priority_def response_body_def)
  have "extractErrorMessage (AxiosError ?only_error ''Request failed with status code 500'')
          = message_by_stated_priority ?only_error ''Request failed with status code 500''"
    using extractErrorMessage_priority
      [of "JsError []" ?only_error "[]" "''Request failed with status code 500''" "JNum 7"] h2
    by blast
  then have r2: "extractErrorMessage (AxiosError ?only_error ''Request failed with status code 500'') = ''Y''"
    by (simp add: message_by_stated_priority_def response_body_def)
  have "extractErrorMessage (AxiosError None ''Network Error'')
          = message_by_stated_priority None ''Network Error''"
    using extractErrorMessage_priority [of "JsError []" None "[]" "''Network Error''" "JNum 7"] h3
    by blast
  then have r3: "extractErrorMessage (AxiosError None ''Network Error'') = ''Network Error''"
    by (simp add: message_by_stated_priority_def response_body_def)
  have "extractErrorMessage (AxiosError None []) = message_by_stated_priority None []"
    using extractErrorMessage_priority [of "JsError []" None "[]" "[]" "JNum 7"] h3
    by blast
  then have r4: "extractErrorMessage (AxiosError None []) = ''Request failed''"
    by (simp add: message_by_stated_priority_def response_body_def)
  have r5: "extractErrorMessage (AxiosError ?text []) = ''Bad Gateway''"
    using extractErrorMessage_priority [of "JsError []" ?text "''Bad Gateway''" "[]" "JNum 7"] h4
    by blast
  have r6: "extractErrorMessage (ThrownValue (JNum 7)) = ''Unknown error occurred''"
    using extractErrorMessage_priority [of "JsError []" None "[]" "[]" "JNum 7"] h5
    by blast
  show ?thesis
    using h1 r1 r2 r3 r4 h4 r5 h5 r6 by blast
qed

section \<open>Public landing page: edition lookup\<close>

text \<open>What \<open>loadEpaper\<close> does after a valid date, by the outcome of the by-date query.\<close>

lemma queries_attempt2:
  "queries (attempt2 be newDate day s) = queries s @ [LatestPublishedQuery]"
  by (simp add: attempt2_def catch_err2_def showToast_def send_def Let_def
      split: http.splits option.splits sum.splits)

lemma loadEpaper_rejected:
  assumes "format_ymd d = Inr day" and "by_date be day = Rejected e"
  shows "loadEpaper be newDate d s
           = ((attempt2 be newDate day
                 (send (ByDateQuery day) (s\<lparr>lp_loading := True, error := None\<rparr>)))
                \<lparr>lp_loading := False\<rparr>, None)"
  using assms by (simp add: loadEpaper_def getEpaperByDate_def epaper_request_def Let_def)

lemma loadEpaper_empty_body:
  assumes "format_ymd d = Inr day" and "by_date be day = Resolved None"
  shows "loadEpaper be newDate d s
           = ((attempt2 be newDate day
                 (send (ByDateQuery day) (s\<lparr>lp_loading := True, error := None\<rparr>)))
                \<lparr>lp_loading := False\<rparr>, None)"
  using assms by (simp add: loadEpaper_def getEpaperByDate_def epaper_request_def Let_def)

lemma loadEpaper_found:
  assumes "format_ymd d = Inr day" and "by_date be day = Resolved (Some found)"
    and "format_ymd (newDate (ep_date found)) = Inr fday"
  shows "queries (fst (loadEpaper be newDate d s)) = queries s @ [ByDateQuery day]"
  using assms
  by (simp add: loadEpaper_def getEpaperByDate_def epaper_request_def send_def Let_def)

lemma loadEpaper_found_bad_date:
  assumes "format_ymd d = Inr day" and "by_date be day = Resolved (Some found)"
    and "format_ymd (newDate (ep_date found)) = Inl x"
  shows "queries (fst (loadEpaper be newDate d s))
           = queries s @ [ByDateQuery day, LatestPublishedQuery]"
  using assms
  by (simp add: loadEpaper_def getEpaperByDate_def epaper_request_def send_def Let_def
      queries_attempt2)

lemma loadEpaper_returns:
  "format_ymd d = Inr day \<Longrightarrow> snd (loadEpaper be newDate d s) = None"
  by (simp add: loadEpaper_def Let_def)

lemma attempt2_latest:
  assumes "latest_published be = Resolved (Some (P # rest))"
    and "format_ymd (newDate (ep_date P)) = Inr pday"
  shows "epaper (attempt2 be newDate day s) = Some P"
    and "error (attempt2 be newDate day s) = error s"
    and "toasts (attempt2 be newDate day s) = toasts s @ [latest_notice]"
  using assms by (simp_all add: attempt2_def first_epaper_def showToast_def send_def Let_def)

lemma attempt2_nothing:
  assumes "latest_published be = Resolved eps" and "first_epaper eps = None"
  shows "epaper (attempt2 be newDate day s) = None"
    and "error (attempt2 be newDate day s) = Some ''No published ePaper available''"
    and "toasts (attempt2 be newDate day s) = toasts s @ [no_epaper_notice]"
  using assms by (simp_all add: attempt2_def showToast_def send_def Let_def)

lemma attempt2_rejected:
  assumes "latest_published be = Rejected e2"
  shows "error (attempt2 be newDate day s) = Some ''Failed to fetch latest ePaper''"
  using assms by (simp add: attempt2_def catch_err2_def showToast_def send_def Let_def)

lemma attempt2_same_answer:
  "latest_published be' = latest_published be \<Longrightarrow>
   attempt2 be' newDate day s = attempt2 be newDate day s"
  by (simp add: attempt2_def)

text \<open>
  Claim C4: the selected date is a valid date and the by-date query reports "not found"
  (status 404, or an empty body). If the answer to the query for published editions
  starts with an edition \<open>P\<close> (the server lists the most recent first; \<open>P\<close> carries a valid
  date), the load returns normally with \<open>P\<close> displayed, no error state, loading finished,
  and exactly one notice added, the one saying that the latest edition is shown instead.
  If that answer has no edition, the load returns normally with no edition displayed,
  the state \<open>No published ePaper available\<close>, and loading finished: nothing is thrown.
\<close>

theorem loadEpaper_fallback_to_latest:
  assumes "format_ymd d = Inr day" and "not_found (by_date be day)"
  shows
    "(latest_published be = Resolved (Some (P # rest))
        \<and> format_ymd (newDate (ep_date P)) = Inr pday \<longrightarrow>
        snd (loadEpaper be newDate d s) = None
        \<and> epaper (fst (loadEpaper be newDate d s)) = Some P
        \<and> toasts (fst (loadEpaper be newDate d s)) = toasts s @ [latest_notice]
        \<and> error (fst (loadEpaper be newDate d s)) = None
        \<and> \<not> lp_loading (fst (loadEpaper be newDate d s)))
     \<and> (latest_published be = Resolved eps \<and> first_epaper eps = None \<longrightarrow>
        snd (loadEpaper be newDate d s) = None
        \<and> epaper (fst (loadEpaper be newDate d s)) = None
        \<and> error (fst (loadEpaper be newDate d s)) = Some ''No published ePaper available''
        \<and> toasts (fst (loadEpaper be newDate d s)) = toasts s @ [no_epaper_notice]
        \<and> \<not> lp_loading (fst (loadEpaper be newDate d s)))"
  using assms
  by (auto simp: loadEpaper_def attempt2_def not_found_def getEpaperByDate_def
      epaper_request_def first_epaper_def showToast_def send_def Let_def
      split: http.splits option.splits thrown.splits sum.splits list.splits)

text \<open>
  Witness for C4: 1 May 2024 has no edition (status 404). With the morning edition of
  30 April published, it is displayed with the notice; with nothing published, the page
  ends in the no-edition state.
\<close>

theorem loadEpaper_fallback_to_latest_witness:
  "format_ymd (ValidDate ''2024-05-01'') = Inr ''2024-05-01''
   \<and> not_found (by_date no_edition_that_day ''2024-05-01'')
   \<and> not_found (by_date no_edition_at_all ''2024-05-01'')
   \<and> epaper (fst (loadEpaper no_edition_that_day ValidDate (ValidDate ''2024-05-01'') fresh_landing))
       = Some morning_edition
   \<and> toasts (fst (loadEpaper no_edition_that_day ValidDate (ValidDate ''2024-05-01'') fresh_landing))
       = [latest_notice]
   \<and> epaper (fst (loadEpaper no_edition_at_all ValidDate (ValidDate ''2024-05-01'') fresh_landing))
       = None
   \<and> error (fst (loadEpaper no_edition_at_all ValidDate (ValidDate ''2024-05-01'') fresh_landing))
       = Some ''No published ePaper available''
   \<and> snd (loadEpaper no_edition_at_all ValidDate (ValidDate ''2024-05-01'') fresh_landing) = None"
proof -
  have d: "format_ymd (ValidDate ''2024-05-01'') = Inr ''2024-05-01''"
    by (simp add: format_ymd_def)
  have n1: "not_found (by_date no_edition_that_day ''2024-05-01'')"
    by (simp add: not_found_def no_edition_that_day_def)
  have n2: "not_found (by_date no_edition_at_all ''2024-05-01'')"
    by (simp add: not_found_def no_edition_at_all_def)
  show ?thesis
    using d n1 n2
      loadEpaper_fallback_to_latest
        [OF d n1, of morning_edition "[]" ValidDate "''2024-04-30''" fresh_landing]
      loadEpaper_fallback_to_latest
        [OF d n2, of morning_edition "[]" ValidDate "''2024-04-30''" fresh_landing "Some []"]
    by (simp add: no_edition_that_day_def no_edition_at_all_def morning_edition_def
        format_ymd_def first_epaper_def fresh_landing_def)
qed

text \<open>
  Claim C5 says that a transport-level failure of the by-date query is terminal, is
  surfaced as an error state and triggers no fallback query. Counterexample: the by-date
  request gets no response at all (\<open>Network Error\<close>). The page sends the fallback query
  all the same, displays the latest published edition and ends without an error state.
\<close>

theorem loadEpaper_transport_failure_not_terminal:
  "transport_failure (by_date unreachable_by_date ''2024-05-01'')
   \<and> queries (fst (loadEpaper unreachable_by_date ValidDate (ValidDate ''2024-05-01'') fresh_landing))
       = [ByDateQuery ''2024-05-01'', LatestPublishedQuery]
   \<and> error (fst (loadEpaper unreachable_by_date ValidDate (ValidDate ''2024-05-01'') fresh_landing))
       = None
   \<and> epaper (fst (loadEpaper unreachable_by_date ValidDate (ValidDate ''2024-05-01'') fresh_landing))
       = Some morning_edition"
  by (simp add: loadEpaper_def attempt2_def getEpaperByDate_def epaper_request_def
      first_epaper_def showToast_def send_def format_ymd_def transport_failure_def
      unreachable_by_date_def morning_edition_def fresh_landing_def Let_def)

text \<open>
  Claim C5 as amended, for a valid selected date. The fallback query is sent whenever
  the by-date query is rejected, by a clean "not found" and by a transport-level failure
  alike: the outcome of the load does not depend on which rejection it was. Such a
  rejection is not terminal and is not itself an error state: when the fallback finds an
  edition (with a valid date) it is displayed without error. A rejected fallback query is
  terminal: the load ends in the error state \<open>Failed to fetch latest ePaper\<close>. When the
  by-date query finds an edition (with a valid date) no fallback query is sent. In every
  case the load sends the by-date query once and the fallback query at most once: nothing
  is retried, and nothing is thrown.
\<close>

theorem loadEpaper_fallback_on_any_failure:
  assumes d: "format_ymd d = Inr day"
  shows
    "(by_date be day = Rejected e \<longrightarrow>
        queries (fst (loadEpaper be newDate d s))
          = queries s @ [ByDateQuery day, LatestPublishedQuery])
     \<and> (by_date be day = Rejected e \<and> by_date be' day = Rejected e'
          \<and> latest_published be' = latest_published be \<longrightarrow>
        loadEpaper be' newDate d s = loadEpaper be newDate d s)
     \<and> (by_date be day = Rejected e \<and> latest_published be = Resolved (Some (P # rest))
          \<and> format_ymd (newDate (ep_date P)) = Inr pday \<longrightarrow>
        error (fst (loadEpaper be newDate d s)) = None
        \<and> epaper (fst (loadEpaper be newDate d s)) = Some P)
     \<and> (by_date be day = Rejected e \<and> latest_published be = Rejected e2 \<longrightarrow>
        error (fst (loadEpaper be newDate d s)) = Some ''Failed to fetch latest ePaper'')
     \<and> (by_date be day = Resolved (Some found)
          \<and> format_ymd (newDate (ep_date found)) = Inr fday \<longrightarrow>
        queries (fst (loadEpaper be newDate d s)) = queries s @ [ByDateQuery day])
     \<and> (queries (fst (loadEpaper be newDate d s)) = queries s @ [ByDateQuery day]
        \<or> queries (fst (loadEpaper be newDate d s))
            = queries s @ [ByDateQuery day, LatestPublishedQuery])
     \<and> snd (loadEpaper be newDate d s) = None"
proof (intro conjI impI)
  show "queries (fst (loadEpaper be newDate d s))
          = queries s @ [ByDateQuery day, LatestPublishedQuery]"
    if "by_date be day = Rejected e"
    using loadEpaper_rejected [OF d that] by (simp add: queries_attempt2 send_def)
  show "loadEpaper be' newDate d s = loadEpaper be newDate d s"
    if "by_date be day = Rejected e \<and> by_date be' day = Rejected e'
        \<and> latest_published be' = latest_published be"
  proof -
    from that have r: "by_date be day = Rejected e" and r': "by_date be' day = Rejected e'"
      and same: "latest_published be' = latest_published be" by simp_all
    show ?thesis
      unfolding loadEpaper_rejected [OF d r] loadEpaper_rejected [OF d r']
        attempt2_same_answer [OF same] ..
  qed
  show "error (fst (loadEpaper be newDate d s)) = None"
    if "by_date be day = Rejected e \<and> latest_published be = Resolved (Some (P # rest))
        \<and> format_ymd (newDate (ep_date P)) = Inr pday"
  proof -
    from that have r: "by_date be day = Rejected e"
      and l: "latest_published be = Resolved (Some (P # rest))"
      and p: "format_ymd (newDate (ep_date P)) = Inr pday" by simp_all
    show ?thesis
      unfolding loadEpaper_rejected [OF d r] using l p by (simp add: attempt2_latest(2) send_def)
  qed
  show "epaper (fst (loadEpaper be newDate d s)) = Some P"
    if "by_date be day = Rejected e \<and> latest_published be = Resolved (Some (P # rest))
        \<and> format_ymd (newDate (ep_date P)) = Inr pday"
  proof -
    from that have r: "by_date be day = Rejected e"
      and l: "latest_published be = Resolved (Some (P # rest))"
      and p: "format_ymd (newDate (ep_date P)) = Inr pday" by simp_all
    show ?thesis
      unfolding loadEpaper_rejected [OF d r] using l p by (simp add: attempt2_latest(1))
  qed
  show "error (fst (loadEpaper be newDate d s)) = Some ''Failed to fetch latest ePaper''"
    if "by_date be day = Rejected e \<and> latest_published be = Rejected e2"
  proof -
    from that have r: "by_date be day = Rejected e"
      and l: "latest_published be = Rejected e2" by simp_all
    show ?thesis
      unfolding loadEpaper_rejected [OF d r] by (simp add: attempt2_rejected [OF l])
  qed
  show "queries (fst (loadEpaper be newDate d s)) = queries s @ [ByDateQuery day]"
    if "by_date be day = Resolved (Some found)
        \<and> format_ymd (newDate (ep_date found)) = Inr fday"
    using that loadEpaper_found [OF d] by blast
  show "queries (fst (loadEpaper be newDate d s)) = queries s @ [ByDateQuery day]
        \<or> queries (fst (loadEpaper be newDate d s))
            = queries s @ [ByDateQuery day, LatestPublishedQuery]"
  proof (cases "by_date be day")
    case (Rejected e0)
    then show ?thesis
      using loadEpaper_rejected [OF d Rejected] by (simp add: queries_attempt2 send_def)
  next
    case (Resolved body)
    show ?thesis
    proof (cases body)
      case None
      then show ?thesis
        using Resolved loadEpaper_empty_body [OF d] by (simp add: queries_attempt2 send_def)
    next
      case (Some found)
      show ?thesis
      proof (cases "format_ymd (newDate (ep_date found))")
        case (Inl x)
        then show ?thesis using Resolved Some loadEpaper_found_bad_date [OF d] by blast
      next
        case (Inr fday0)
        then show ?thesis using Resolved Some loadEpaper_found [OF d] by blast
      qed
    qed
  qed
  show "snd (loadEpaper be newDate d s) = None"
    using d by (rule loadEpaper_returns)
qed

text \<open>
  Witness for C5: the unreachable server and the server answering 404 lead to the same
  final state, with both queries sent once; and when the fallback is unreachable too, the
  load ends in the error state.
\<close>

theorem loadEpaper_fallback_on_any_failure_witness:
  "format_ymd (ValidDate ''2024-05-01'') = Inr ''2024-05-01''
   \<and> by_date unreachable_by_date ''2024-05-01'' = Rejected (AxiosError None ''Network Error'')
   \<and> queries (fst (loadEpaper unreachable_by_date ValidDate (ValidDate ''2024-05-01'') fresh_landing))
       = [ByDateQuery ''2024-05-01'', LatestPublishedQuery]
   \<and> loadEpaper no_edition_that_day ValidDate (ValidDate ''2024-05-01'') fresh_landing
       = loadEpaper unreachable_by_date ValidDate (ValidDate ''2024-05-01'') fresh_landing
   \<and> error (fst (loadEpaper unreachable_by_date ValidDate (ValidDate ''2024-05-01'') fresh_landing))
       = None
   \<and> error (fst (loadEpaper
        (unreachable_by_date\<lparr>latest_published := Rejected (AxiosError None ''Network Error'')\<rparr>)
        ValidDate (ValidDate ''2024-05-01'') fresh_landing))
       = Some ''Failed to fetch latest ePaper''"
proof -
  let ?day = "''2024-05-01''"
  let ?down = "unreachable_by_date\<lparr>latest_published := Rejected (AxiosError None ''Network Error'')\<rparr>"
  let ?e404 = "AxiosError
                 (Some \<lparr>status = 404, data = JObj [(''message'', JStr ''ePaper not found'')]\<rparr>)
                 ''Request failed with status code 404''"
  have d: "format_ymd (ValidDate ?day) = Inr ?day"
    by (simp add: format_ymd_def)
  have r1: "by_date unreachable_by_date ?day = Rejected (AxiosError None ''Network Error'')"
    by (simp add: unreachable_by_date_def)
  have r2: "by_date no_edition_that_day ?day = Rejected ?e404"
    by (simp add: no_edition_that_day_def)
  have r3: "by_date ?down ?day = Rejected (AxiosError None ''Network Error'')"
    by (simp add: unreachable_by_date_def)
  have same: "latest_published no_edition_that_day = latest_published unreachable_by_date"
    by (simp add: no_edition_that_day_def unreachable_by_date_def)
  have l: "latest_published unreachable_by_date = Resolved (Some (morning_edition # []))"
    by (simp add: unreachable_by_date_def)
  have l3: "latest_published ?down = Rejected (AxiosError None ''Network Error'')"
    by simp
  have p: "format_ymd (ValidDate (ep_date morning_edition)) = Inr ''2024-04-30''"
    by (simp add: format_ymd_def morning_edition_def)
  note up = loadEpaper_fallback_on_any_failure
    [OF d, where be = unreachable_by_date and e = "AxiosError None ''Network Error''"
       and newDate = ValidDate and s = fresh_landing and be' = no_edition_that_day
       and e' = ?e404 and P = morning_edition and rest = "[]" and pday = "''2024-04-30''"]
  note down = loadEpaper_fallback_on_any_failure
    [OF d, where be = ?down and e = "AxiosError None ''Network Error''"
       and newDate = ValidDate and s = fresh_landing
       and ?e2.0 = "AxiosError None ''Network Error''"]
  have "queries (fst (loadEpaper unreachable_by_date ValidDate (ValidDate ?day) fresh_landing))
          = queries fresh_landing @ [ByDateQuery ?day, LatestPublishedQuery]"
    using up r1 by blast
  then have q: "queries (fst (loadEpaper unreachable_by_date ValidDate (ValidDate ?day) fresh_landing))
          = [ByDateQuery ?day, LatestPublishedQuery]"
    by (simp add: fresh_landing_def)
  have eq: "loadEpaper no_edition_that_day ValidDate (ValidDate ?day) fresh_landing
          = loadEpaper unreachable_by_date ValidDate (ValidDate ?day) fresh_landing"
    using up r1 r2 same by blast
  have ok: "error (fst (loadEpaper unreachable_by_date ValidDate (ValidDate ?day) fresh_landing)) = None"
    using up r1 l p by blast
  have bad: "error (fst (loadEpaper ?down ValidDate (ValidDate ?day) fresh_landing))
          = Some ''Failed to fetch latest ePaper''"
    using down r3 l3 by blast
  show ?thesis using d r1 q eq ok bad by blast
qed

section \<open>Edition form: drag-reorder\<close>

lemma findIndex_first:
  "i < length xs \<Longrightarrow> P (xs ! i) \<Longrightarrow> (\<forall>k<i. \<not> P (xs ! k)) \<Longrightarrow> findIndex P xs = int i"
proof (induction xs arbitrary: i)
  case Nil
  then show ?case by simp
next
  case (Cons x xs)
  show ?case
  proof (cases i)
    case 0
    with Cons.prems show ?thesis by simp
  next
    case (Suc n)
    with Cons.prems have "\<not> P x" by auto
    moreover have "findIndex P xs = int n"
      using Cons.prems Suc by (intro Cons.IH) auto
    ultimately show ?thesis using Suc by (simp add: Let_def)
  qed
qed

lemma findIndex_distinct:
  assumes "distinct (map f xs)" "i < length xs" "f (xs ! i) = v"
  shows "findIndex (\<lambda>x. f x = v) xs = int i"
proof (rule findIndex_first)
  show "i < length xs" by fact
  show "f (xs ! i) = v" by fact
  show "\<forall>k<i. f (xs ! k) \<noteq> v"
  proof (intro allI impI)
    fix k assume "k < i"
    have "k < length (map f xs)" "i < length (map f xs)" using assms(2) \<open>k < i\<close> by simp_all
    with assms(1) have "(map f xs ! k = map f xs ! i) = (k = i)"
      by (rule nth_eq_iff_index_eq)
    then show "f (xs ! k) \<noteq> v" using assms(2,3) \<open>k < i\<close> by simp
  qed
qed

lemma arrayMove_in_range:
  assumes "i < length xs" "j < length xs"
  shows "arrayMove xs (int i) (int j) = map Some (moved xs i j)"
proof -
  have "min j (length xs - Suc 0) = j" using assms by arith
  moreover have "min i (length xs) = i" using assms by arith
  moreover have "i + (length xs - Suc i) = length xs - Suc 0" using assms by arith
  ultimately show ?thesis
    using assms
    by (simp add: arrayMove_def moved_def splice_start_def Let_def take_map drop_map)
qed

lemma length_moved: "i < length xs \<Longrightarrow> length (moved xs i j) = length xs"
  by (auto simp: moved_def Let_def min_def)

lemma moved_nth: "i < length xs \<Longrightarrow> j < length xs \<Longrightarrow> moved xs i j ! j = xs ! i"
  by (auto simp: moved_def Let_def nth_append min_def)

lemma remove1_take_drop:
  "distinct xs \<Longrightarrow> i < length xs \<Longrightarrow> remove1 (xs ! i) xs = take i xs @ drop (Suc i) xs"
proof (induction xs arbitrary: i)
  case Nil
  then show ?case by simp
next
  case (Cons x xs)
  then show ?case by (cases i) auto
qed

lemma moved_remove1:
  assumes "distinct xs" "i < length xs"
  shows "remove1 (xs ! i) (moved xs i j) = remove1 (xs ! i) xs"
proof -
  define rest where "rest = take i xs @ drop (Suc i) xs"
  have rest: "remove1 (xs ! i) xs = rest"
    unfolding rest_def using assms by (rule remove1_take_drop)
  have "xs ! i \<notin> set (remove1 (xs ! i) xs)" using assms(1) by (simp add: in_set_remove1)
  then have notin: "xs ! i \<notin> set rest" using rest by simp
  then have "xs ! i \<notin> set (take j rest)" by (meson in_set_takeD)
  then have "remove1 (xs ! i) (take j rest @ [xs ! i] @ drop j rest) = take j rest @ drop j rest"
    by (simp add: remove1_append)
  moreover have "moved xs i j = take j rest @ [xs ! i] @ drop j rest"
    by (simp only: moved_def Let_def rest_def)
  ultimately show ?thesis using rest by (simp only: append_take_drop_id)
qed

lemma renumber_Some:
  "renumber (map Some ys) = map (\<lambda>(img, k). img\<lparr>pageNumber := int k + 1\<rparr>) (zip ys [0..<length ys])"
  by (simp add: renumber_def with_pageNumber_def zip_map1 case_prod_unfold)

lemma pageNumber_renumber: "map pageNumber (renumber zs) = map int [1..<Suc (length zs)]"
proof -
  have "map pageNumber (renumber zs) = map (\<lambda>k. int k + 1) [0..<length zs]"
    by (rule nth_equalityI) (auto simp: renumber_def with_pageNumber_def split: option.splits)
  also have "\<dots> = map int (map Suc [0..<length zs])" by simp
  also have "map Suc [0..<length zs] = [1..<Suc (length zs)]"
    using map_Suc_upt[of 0 "length zs"] by simp
  finally show ?thesis .
qed

lemma img_id_renumber: "map img_id (renumber (map Some ys)) = map img_id ys"
  by (rule nth_equalityI) (auto simp: renumber_Some)

lemma renumber_nth:
  "k < length ys \<Longrightarrow> renumber (map Some ys) ! k = (ys ! k)\<lparr>pageNumber := int k + 1\<rparr>"
  by (simp add: renumber_Some)

lemma moved_map: "i < length xs \<Longrightarrow> map f (moved xs i j) = moved (map f xs) i j"
  by (simp add: moved_def Let_def take_map drop_map)

lemma existingImages_handleDragEnd:
  "a \<noteq> b \<Longrightarrow>
   existingImages (fst (handleDragEnd server ident \<lparr>active_id = a, over_id = Some b\<rparr> fd))
   = renumber (arrayMove (existingImages fd)
        (findIndex (\<lambda>img. img_id img = Some a) (existingImages fd))
        (findIndex (\<lambda>img. img_id img = Some b) (existingImages fd)))"
  by (simp add: handleDragEnd_def Let_def split: option.splits sum.splits)

text \<open>A drop outside the list, or of an image on itself, changes nothing and sends nothing.\<close>

lemma handleDragEnd_no_reorder:
  "handleDragEnd server ident \<lparr>active_id = a, over_id = None\<rparr> fd = (fd, [], None)"
  "handleDragEnd server ident \<lparr>active_id = a, over_id = Some a\<rparr> fd = (fd, [], None)"
  by (simp_all add: handleDragEnd_def)

text \<open>
  Claim C8: the form holds N existing images with distinct ids, and the image at position
  \<open>i\<close> is dragged onto the image at another position \<open>j\<close>. Then the new list is
  \<open>arrayMove\<close> of the old one from \<open>i\<close> to \<open>j\<close> with the page numbers rewritten: it has
  the same length, the dragged image is at position \<open>j\<close>, the other images keep their
  order, every field but the page number is kept, and the page numbers are 1..N in array
  order. (A drop of an image on itself, or outside the list, is no reorder: the handler
  leaves the form untouched.)
\<close>

theorem handleDragEnd_renumbers:
  assumes ids: "distinct (map img_id (existingImages fd))"
    and i: "i < length (existingImages fd)" and j: "j < length (existingImages fd)"
    and ij: "i \<noteq> j"
    and a: "img_id (existingImages fd ! i) = Some a"
    and b: "img_id (existingImages fd ! j) = Some b"
  shows
    "existingImages (fst (handleDragEnd server ident \<lparr>active_id = a, over_id = Some b\<rparr> fd))
       = renumber (arrayMove (existingImages fd) (int i) (int j))
     \<and> arrayMove (existingImages fd) (int i) (int j) = map Some (moved (existingImages fd) i j)
     \<and> length (existingImages
          (fst (handleDragEnd server ident \<lparr>active_id = a, over_id = Some b\<rparr> fd)))
       = length (existingImages fd)
     \<and> map pageNumber (existingImages
          (fst (handleDragEnd server ident \<lparr>active_id = a, over_id = Some b\<rparr> fd)))
       = map int [1..<Suc (length (existingImages fd))]
     \<and> existingImages
          (fst (handleDragEnd server ident \<lparr>active_id = a, over_id = Some b\<rparr> fd)) ! j
       = (existingImages fd ! i)\<lparr>pageNumber := int j + 1\<rparr>
     \<and> remove1 (Some a) (map img_id (existingImages
          (fst (handleDragEnd server ident \<lparr>active_id = a, over_id = Some b\<rparr> fd))))
       = remove1 (Some a) (map img_id (existingImages fd))"
proof -
  let ?imgs = "existingImages fd"
  let ?res = "existingImages (fst (handleDragEnd server ident \<lparr>active_id = a, over_id = Some b\<rparr> fd))"
  have "i < length (map img_id ?imgs)" "j < length (map img_id ?imgs)" using i j by simp_all
  with ids have "(map img_id ?imgs ! i = map img_id ?imgs ! j) = (i = j)"
    by (rule nth_eq_iff_index_eq)
  then have ab: "a \<noteq> b" using a b i j ij by auto
  have fi: "findIndex (\<lambda>img. img_id img = Some a) ?imgs = int i"
    using ids i a by (rule findIndex_distinct)
  have fj: "findIndex (\<lambda>img. img_id img = Some b) ?imgs = int j"
    using ids j b by (rule findIndex_distinct)
  have res: "?res = renumber (arrayMove ?imgs (int i) (int j))"
    using existingImages_handleDragEnd[OF ab] fi fj by simp
  have mv: "arrayMove ?imgs (int i) (int j) = map Some (moved ?imgs i j)"
    using i j by (rule arrayMove_in_range)
  have r1: "?res = renumber (map Some (moved ?imgs i j))"
    using res mv by (simp only:)
  have lm: "length (moved ?imgs i j) = length ?imgs" using i by (rule length_moved)
  have len: "length ?res = length ?imgs"
    unfolding r1 by (simp add: renumber_Some lm)
  have pages: "map pageNumber ?res = map int [1..<Suc (length ?imgs)]"
    unfolding r1 using pageNumber_renumber[of "map Some (moved ?imgs i j)"] by (simp add: lm)
  have at_j: "?res ! j = (?imgs ! i)\<lparr>pageNumber := int j + 1\<rparr>"
    unfolding r1 using j moved_nth[OF i j] by (simp add: renumber_nth lm)
  have "map img_id ?res = map img_id (moved ?imgs i j)"
    unfolding r1 by (rule img_id_renumber)
  also have "\<dots> = moved (map img_id ?imgs) i j" using i by (rule moved_map)
  finally have ids': "map img_id ?res = moved (map img_id ?imgs) i j" .
  have "remove1 (map img_id ?imgs ! i) (moved (map img_id ?imgs) i j)
      = remove1 (map img_id ?imgs ! i) (map img_id ?imgs)"
    using ids i by (intro moved_remove1) auto
  then have order: "remove1 (Some a) (map img_id ?res) = remove1 (Some a) (map img_id ?imgs)"
    using a i ids' by simp
  show ?thesis using res mv len pages at_j order by blast
qed

text \<open>
  Witness for C8: the images A (page 1), B (page 2), C (page 3); C is dragged onto A. The
  result is C (page 1), A (page 2), B (page 3).
\<close>

theorem handleDragEnd_renumbers_witness:
  "distinct (map img_id (existingImages form_ABC))
   \<and> img_id (existingImages form_ABC ! 2) = Some ''C''
   \<and> img_id (existingImages form_ABC ! 0) = Some ''A''
   \<and> existingImages
        (fst (handleDragEnd accepting_reorder (Some ''e1'')
                \<lparr>active_id = ''C'', over_id = Some ''A''\<rparr> form_ABC))
       = [page_image ''C'' 1, page_image ''A'' 2, page_image ''B'' 3]"
proof -
  have imgs: "existingImages form_ABC = [page_image ''A'' 1, page_image ''B'' 2, page_image ''C'' 3]"
    by (simp add: form_ABC_def)
  have ids: "distinct (map img_id (existingImages form_ABC))"
    by (simp add: imgs page_image_def)
  have i: "2 < length (existingImages form_ABC)" and j: "0 < length (existingImages form_ABC)"
    by (simp_all add: imgs)
  have ij: "(2::nat) \<noteq> 0" by simp
  have a: "img_id (existingImages form_ABC ! 2) = Some ''C''"
    by (simp add: imgs page_image_def)
  have b: "img_id (existingImages form_ABC ! 0) = Some ''A''"
    by (simp add: imgs page_image_def)
  have mv: "moved (existingImages form_ABC) 2 0
              = [page_image ''C'' 3, page_image ''A'' 1, page_image ''B'' 2]"
    by (simp add: imgs moved_def)
  have "existingImages
          (fst (handleDragEnd accepting_reorder (Some ''e1'')
                  \<lparr>active_id = ''C'', over_id = Some ''A''\<rparr> form_ABC))
        = renumber (map Some (moved (existingImages form_ABC) 2 0))"
    using handleDragEnd_renumbers [OF ids i j ij a b, of accepting_reorder "Some ''e1''"]
    by simp
  also have "\<dots> = [page_image ''C'' 1, page_image ''A'' 2, page_image ''B'' 3]"
    unfolding mv by (simp add: renumber_def with_pageNumber_def page_image_def upt_rec)
  finally show ?thesis using ids a b by blast
qed

end
